theory Spec2Isabelle
  imports Main "HOL-Library.Word"
begin

section \<open>JavaScript values\<close>

text \<open>
  The fields of the \<open>options\<close> object of \<open>boot/lib/encrypted-file.js\<close> are untyped. The
  model covers the primitive values: \<open>undefined\<close> (also what reading an absent field
  gives), \<open>null\<close>, booleans, strings, and of the numbers \<open>NaN\<close> and the integers from
  \<open>-2^53\<close> to \<open>2^53 - 1\<close>: \<open>JNum n\<close> is the number whose value is \<open>sint n\<close>, the 54 bits
  of \<open>n\<close> read as a signed integer. Each of these integers is a double, and \<open>-0\<close> is
  not told apart from \<open>0\<close>. Other numbers and objects are outside the model.
\<close>

datatype jsval = JUndefined | JNull | JBool bool | JNum "54 word" | JNaN | JStr string

text \<open>The truth value of a condition \<open>v ? a : b\<close> (ToBoolean).\<close>

fun truthy :: "jsval \<Rightarrow> bool" where
  "truthy JUndefined = False"
| "truthy JNull = False"
| "truthy (JBool b) = b"
| "truthy (JNum n) = (n \<noteq> 0)"
| "truthy JNaN = False"
| "truthy (JStr s) = (s \<noteq> [])"

text \<open>Decimal digits of a natural number, for the string form of a number.\<close>

function dec :: "nat \<Rightarrow> string" where
  "dec n = (if n < 10 then [char_of (48 + n)] else dec (n div 10) @ [char_of (48 + n mod 10)])"
  by pat_completeness auto
termination
  by (relation "measure id") auto

declare dec.simps [simp del]

text \<open>The string that \<open>'...' + v\<close> appends for a primitive \<open>v\<close> (ToString). An integer
  of magnitude below \<open>10^21\<close> is printed in plain decimal, with a minus sign when it is
  negative; every \<open>JNum n\<close> is such an integer.\<close>

fun ToString :: "jsval \<Rightarrow> string" where
  "ToString JUndefined = ''undefined''"
| "ToString JNull = ''null''"
| "ToString (JBool b) = (if b then ''true'' else ''false'')"
| "ToString (JNum n) = (if sint n < 0 then ''-'' @ dec (nat (- sint n)) else dec (nat (sint n)))"
| "ToString JNaN = ''NaN''"
| "ToString (JStr s) = s"

text \<open>
  The test \<open>provider == 'aws'\<close> of \<open>getServiceClient\<close>. Loose equality of two strings is
  equality of their characters. Against \<open>undefined\<close> and \<open>null\<close> a string is never equal;
  against a number or a boolean both sides are turned into numbers, and \<open>'aws'\<close> turns
  into \<open>NaN\<close>, which is equal to nothing.
\<close>

fun eq_aws :: "jsval \<Rightarrow> bool" where
  "eq_aws (JStr s) = (s = ''aws'')"
| "eq_aws JUndefined = False"
| "eq_aws JNull = False"
| "eq_aws (JBool b) = False"
| "eq_aws (JNum n) = False"
| "eq_aws JNaN = False"

section \<open>Data\<close>

type_synonym bytes = "8 word list"

text \<open>The \<open>options\<close> argument of the constructor, with its five documented fields
  \<open>provider\<close>, \<open>region\<close>, \<open>api-key\<close>, \<open>api-secret\<close> and \<open>key-id\<close>.\<close>

record options =
  opt_provider :: jsval
  opt_region :: jsval
  opt_api_key :: jsval
  opt_api_secret :: jsval
  opt_key_id :: jsval

text \<open>The object \<open>new AWS.KMS({apiVersion, region, accessKeyId, secretAccessKey})\<close>.\<close>

record kms_client =
  apiVersion :: string
  region :: jsval
  accessKeyId :: jsval
  secretAccessKey :: jsval

definition AWS_KMS_VERSION :: string where
  "AWS_KMS_VERSION = ''2014-11-01''"

text \<open>
  Error values: \<open>Error msg\<close> is \<open>new Error(msg)\<close>; \<open>KmsError code\<close> stands for an error
  object that the KMS client hands to a callback; \<open>FsError e\<close> is the rejection of a
  promisified \<open>fs\<close> call.
\<close>

datatype errno = ENOENT | EACCES | EISDIR | ENOSPC | EIO

datatype error = Error string | KmsError string | FsError errno

text \<open>The instance: its three fields \<open>this.filepath\<close>, \<open>this.client\<close>, \<open>this.masterKeyId\<close>.\<close>

record KeyVaultEncryptedFile =
  filepath :: string
  client :: kms_client
  masterKeyId :: jsval

text \<open>
  What the code does to the outside, in order: the log lines of \<open>logger.info\<close> and
  \<open>logger.error\<close>, the calls of \<open>client.encrypt\<close> and \<open>client.decrypt\<close> with the
  \<open>(err, data)\<close> that the client passes to the callback, the calls of \<open>fs.readFile\<close> and
  \<open>fs.writeFile\<close>, and a promise that is rejected with nobody to handle it.
\<close>

datatype logarg = Val jsval | Obj options | Err error

datatype event =
    LogInfo "logarg list"
  | LogError "logarg list"
  | KmsEncryptCall jsval bytes
  | KmsEncryptReply "error + bytes"
  | KmsDecryptCall bytes
  | KmsDecryptReply "error + bytes"
  | FsReadFile string
  | FsWriteFile string bytes
  | UnhandledRejection error

fun is_io :: "event \<Rightarrow> bool" where
  "is_io (LogInfo xs) = False"
| "is_io (LogError xs) = False"
| "is_io (UnhandledRejection e) = False"
| "is_io (KmsEncryptCall k p) = True"
| "is_io (KmsEncryptReply r) = True"
| "is_io (KmsDecryptCall c) = True"
| "is_io (KmsDecryptReply r) = True"
| "is_io (FsReadFile p) = True"
| "is_io (FsWriteFile p d) = True"

text \<open>
  How a promise handed to the caller ends: fulfilled with a value, rejected with an
  error, or \<open>Pending\<close> for good when neither \<open>resolve\<close> nor \<open>reject\<close> is ever called.
\<close>

datatype 'a promise = Fulfilled 'a | Rejected error | Pending

section \<open>The collaborators\<close>

text \<open>
  The file system: the content of each file, and for each path the failure, if any,
  that reading or writing it meets at present. \<open>fs.writeFile(path, data)\<close> opens the path
  with the flag \<open>'w'\<close>, which creates the file or empties it, then writes the data. A
  write can fail in the open (\<open>AtOpen\<close>: a missing directory, permissions, a directory in
  the way), and then the file is as it was; or after the open (\<open>AfterOpen e n\<close>: a full
  disk, an I/O error), and then the file holds only the first \<open>n\<close> bytes of the data.
\<close>

datatype wr_failure = AtOpen errno | AfterOpen errno nat

record fsys =
  files :: "string \<rightharpoonup> bytes"
  rd_fault :: "string \<rightharpoonup> errno"
  wr_fault :: "string \<rightharpoonup> wr_failure"

definition fs_readFile :: "fsys \<Rightarrow> string \<Rightarrow> error + bytes" where
  "fs_readFile f p =
     (case rd_fault f p of
        Some e \<Rightarrow> Inl (FsError e)
      | None \<Rightarrow> (case files f p of None \<Rightarrow> Inl (FsError ENOENT) | Some b \<Rightarrow> Inr b))"

text \<open>\<open>fs.writeFile\<close>: the error of the rejection, if it rejects, and the file system
  afterwards.\<close>

definition fs_writeFile :: "fsys \<Rightarrow> string \<Rightarrow> bytes \<Rightarrow> error option \<times> fsys" where
  "fs_writeFile f p b =
     (case wr_fault f p of
        None \<Rightarrow> (None, f\<lparr>files := (files f)(p \<mapsto> b)\<rparr>)
      | Some (AtOpen e) \<Rightarrow> (Some (FsError e), f)
      | Some (AfterOpen e n) \<Rightarrow> (Some (FsError e), f\<lparr>files := (files f)(p \<mapsto> take n b)\<rparr>))"

text \<open>
  The key vault behind the client: \<open>encrypt\<close> and \<open>decrypt\<close> take the client, the
  request and the vault's own state \<open>'v\<close> (so that two calls may answer differently) and
  give what the callback receives, an error or the data, and the vault's next state.
\<close>

record 'v kms =
  encrypt :: "kms_client \<Rightarrow> jsval \<Rightarrow> bytes \<Rightarrow> 'v \<Rightarrow> (error + bytes) \<times> 'v"
  decrypt :: "kms_client \<Rightarrow> bytes \<Rightarrow> 'v \<Rightarrow> (error + bytes) \<times> 'v"

record 'v world =
  fs :: fsys
  vault :: 'v

section \<open>The module\<close>

definition getServiceClient :: "jsval \<Rightarrow> options \<Rightarrow> (error + kms_client) \<times> event list" where
  "getServiceClient provider' opts =
     (if eq_aws provider' then
        (Inr \<lparr>apiVersion = AWS_KMS_VERSION,
              region = opt_region opts,
              accessKeyId = opt_api_key opts,
              secretAccessKey = opt_api_secret opts\<rparr>,
         [LogInfo [Val (JStr ''Provder is AWS. Configuration details: ''), Obj opts]])
      else
        (Inl (Error (''Unsupported key vault provider: '' @ ToString provider')), []))"

definition constructor :: "string \<Rightarrow> options \<Rightarrow> (error + KeyVaultEncryptedFile) \<times> event list" where
  "constructor filepath' opts =
     (let l = LogInfo [Val (JStr ''filepath: ''), Val (JStr filepath'),
                       Val (JStr '', CMK: ''), Val (opt_key_id opts)];
          (r, evs) = getServiceClient (opt_provider opts) opts
      in case r of
           Inl e \<Rightarrow> (Inl e, l # evs)
         | Inr c \<Rightarrow>
             (Inr \<lparr>filepath = filepath',
                   client = c,
                   masterKeyId = (if truthy (opt_key_id opts) then opt_key_id opts
                                  else JStr ''alias/kaleido'')\<rparr>,
              l # evs))"

text \<open>
  The method \<open>write\<close> (here \<open>write_js\<close>) returns
  \<open>new Promise((resolve, reject) => ...)\<close>. The callback given to
  \<open>client.encrypt\<close> is an \<open>async\<close> function: with an error it logs and calls \<open>reject(err)\<close>;
  otherwise it awaits \<open>fs.writeFile\<close> and then calls \<open>resolve()\<close>. When \<open>fs.writeFile\<close>
  rejects, the \<open>await\<close> throws inside the callback, whose own promise is rejected and
  which nobody holds; \<open>resolve\<close> and \<open>reject\<close> are not reached.
\<close>

definition write_js ::
  "'v kms \<Rightarrow> bytes \<Rightarrow> KeyVaultEncryptedFile \<times> 'v world
     \<Rightarrow> unit promise \<times> event list \<times> KeyVaultEncryptedFile \<times> 'v world" where
  "write_js K plainTextData st =
     (let (this, w) = st;
          (reply, v') = encrypt K (client this) (masterKeyId this) plainTextData (vault w);
          w1 = w\<lparr>vault := v'\<rparr>;
          evs = [KmsEncryptCall (masterKeyId this) plainTextData, KmsEncryptReply reply]
      in case reply of
           Inl err \<Rightarrow>
             (Rejected err,
              evs @ [LogError [Val (JStr ''Failed to encrypt data with KMS.''), Err err]],
              this, w1)
         | Inr blob \<Rightarrow>
             (case fs_writeFile (fs w1) (filepath this) blob of
                (Some e, f') \<Rightarrow>
                  (Pending,
                   evs @ [FsWriteFile (filepath this) blob, UnhandledRejection e],
                   this, w1\<lparr>fs := f'\<rparr>)
              | (None, f') \<Rightarrow>
                  (Fulfilled (),
                   evs @ [FsWriteFile (filepath this) blob],
                   this, w1\<lparr>fs := f'\<rparr>)))"

text \<open>
  \<open>read\<close> is an \<open>async\<close> method: a rejection of the awaited \<open>fs.readFile\<close> rejects the
  promise it returns. Otherwise that promise follows the one built around
  \<open>client.decrypt\<close>, rejected with \<open>err\<close> or resolved with \<open>data.Plaintext\<close>.
\<close>

definition read ::
  "'v kms \<Rightarrow> KeyVaultEncryptedFile \<times> 'v world
     \<Rightarrow> bytes promise \<times> event list \<times> KeyVaultEncryptedFile \<times> 'v world" where
  "read K st =
     (let (this, w) = st
      in case fs_readFile (fs w) (filepath this) of
           Inl e \<Rightarrow> (Rejected e, [FsReadFile (filepath this)], this, w)
         | Inr encrypted \<Rightarrow>
             (let (reply, v') = decrypt K (client this) encrypted (vault w);
                  w1 = w\<lparr>vault := v'\<rparr>;
                  evs = [FsReadFile (filepath this), KmsDecryptCall encrypted,
                         KmsDecryptReply reply]
              in case reply of
                   Inl err \<Rightarrow>
                     (Rejected err,
                      evs @ [LogError [Val (JStr ''Failed to decrypt data with KMS.''), Err err]],
                      this, w1)
                 | Inr plaintext \<Rightarrow> (Fulfilled plaintext, evs, this, w1)))"

section \<open>Sequences of calls\<close>

text \<open>
  A caller's calls on one instance, each run to its end before the next starts, and
  between them the steps \<open>Faults rd wr\<close> of the environment, after which reading and
  writing fail as \<open>rd\<close> and \<open>wr\<close> say (a disk fills up, a directory is removed). The
  journal keeps, for every call, how its promise ended and what the call did.
\<close>

datatype step = Write bytes | Read | Faults "string \<rightharpoonup> errno" "string \<rightharpoonup> wr_failure"

datatype result = Wrote "unit promise" | Got "bytes promise" | Changed

type_synonym entry = "step \<times> result \<times> event list"

definition exec ::
  "'v kms \<Rightarrow> step \<Rightarrow> KeyVaultEncryptedFile \<times> 'v world
     \<Rightarrow> entry \<times> KeyVaultEncryptedFile \<times> 'v world" where
  "exec K c st =
     (case c of
        Write p \<Rightarrow> (let (r, evs, st') = write_js K p st in ((c, Wrote r, evs), st'))
      | Read \<Rightarrow> (let (r, evs, st') = read K st in ((c, Got r, evs), st'))
      | Faults rd wr \<Rightarrow>
          (let (this, w) = st
           in ((c, Changed, []), this, w\<lparr>fs := (fs w)\<lparr>rd_fault := rd, wr_fault := wr\<rparr>\<rparr>)))"

fun run ::
  "'v kms \<Rightarrow> step list \<Rightarrow> KeyVaultEncryptedFile \<times> 'v world
     \<Rightarrow> entry list \<times> KeyVaultEncryptedFile \<times> 'v world" where
  "run K [] st = ([], st)"
| "run K (c # cs) st =
     (let (e, st1) = exec K c st; (es, st2) = run K cs st1 in (e # es, st2))"

text \<open>The ciphertext blob that the vault handed to the callback during a call.\<close>

fun blob_of :: "event list \<Rightarrow> bytes option" where
  "blob_of [] = None"
| "blob_of (KmsEncryptReply (Inr b) # evs) = Some b"
| "blob_of (e # evs) = blob_of evs"

fun successful_write :: "entry \<Rightarrow> bool" where
  "successful_write (Write p, Wrote (Fulfilled u), evs) = True"
| "successful_write e = False"

text \<open>The blob of the most recent successful \<open>write\<close> of a journal, if there is one.\<close>

fun last_blob :: "entry list \<Rightarrow> bytes option" where
  "last_blob [] = None"
| "last_blob (e # es) =
     (case last_blob es of
        Some b \<Rightarrow> Some b
      | None \<Rightarrow> (if successful_write e then blob_of (snd (snd e)) else None))"

text \<open>
  Whether a write of the path would fail after the open, and whether every \<open>write\<close> of a
  sequence is made while that is not so, given the write failures \<open>wr\<close> at its start.
\<close>

definition tears :: "(string \<rightharpoonup> wr_failure) \<Rightarrow> string \<Rightarrow> bool" where
  "tears wr p = (case wr p of Some (AfterOpen e n) \<Rightarrow> True | Some (AtOpen e) \<Rightarrow> False | None \<Rightarrow> False)"

fun intact :: "string \<Rightarrow> (string \<rightharpoonup> wr_failure) \<Rightarrow> step list \<Rightarrow> bool" where
  "intact p wr [] = True"
| "intact p wr (Write d # cs) = (\<not> tears wr p \<and> intact p wr cs)"
| "intact p wr (Read # cs) = intact p wr cs"
| "intact p wr (Faults rd wr' # cs) = intact p wr' cs"

text \<open>Stubs of the collaborators for concrete runs: a vault that never fails, whose
  \<open>encrypt\<close> adds one to every byte and whose \<open>decrypt\<close> takes it off again, a vault
  that always fails, and an empty file system.\<close>

definition shift_kms :: "unit kms" where
  "shift_kms = \<lparr>encrypt = (\<lambda>c k p v. (Inr (map (\<lambda>b. b + 1) p), v)),
               decrypt = (\<lambda>c b v. (Inr (map (\<lambda>b. b - 1) b), v))\<rparr>"

definition down_kms :: "unit kms" where
  "down_kms = \<lparr>encrypt = (\<lambda>c k p v. (Inl (KmsError ''AccessDeniedException''), v)),
               decrypt = (\<lambda>c b v. (Inl (KmsError ''InvalidCiphertextException''), v))\<rparr>"

text \<open>A vault that knows the single key \<open>'custom-key'\<close> and refuses every other one.\<close>

definition keyed_kms :: "unit kms" where
  "keyed_kms = \<lparr>encrypt = (\<lambda>c k p v. (if k = JStr ''custom-key'' then Inr (map (\<lambda>b. b + 1) p)
                                        else Inl (KmsError ''NotFoundException''), v)),
                decrypt = (\<lambda>c b v. (Inr (map (\<lambda>b. b - 1) b), v))\<rparr>"

definition empty_fs :: fsys where
  "empty_fs = \<lparr>files = Map.empty, rd_fault = Map.empty, wr_fault = Map.empty\<rparr>"

definition aws_options :: options where
  "aws_options = \<lparr>opt_provider = JStr ''aws'', opt_region = JStr ''us-east-2'',
                  opt_api_key = JStr ''AKIDEXAMPLE'', opt_api_secret = JStr ''secret'',
                  opt_key_id = JUndefined\<rparr>"

definition unknown_options :: options where
  "unknown_options = aws_options\<lparr>opt_provider := JStr ''unknown-x''\<rparr>"

definition custom_options :: options where
  "custom_options = aws_options\<lparr>opt_key_id := JStr ''custom-key''\<rparr>"

definition zero_options :: options where
  "zero_options = aws_options\<lparr>opt_key_id := JNum 0\<rparr>"

text \<open>A file system holding a file that was not written by this module, and one in
  which the directory of the file is missing, so that writing the file fails.\<close>

definition sentinel_fs :: fsys where
  "sentinel_fs = empty_fs\<lparr>files := [''/qdata/nodekey'' \<mapsto> [83, 69, 78]]\<rparr>"

definition nodir_fs :: fsys where
  "nodir_fs = empty_fs\<lparr>wr_fault := [''/qdata/nodekey'' \<mapsto> AtOpen ENOENT]\<rparr>"

text \<open>Three steps: a \<open>write\<close>, then the disk fills up so that a write gives up after
  one byte, then a second \<open>write\<close>. And three steps in which the directory is removed
  instead, followed by a \<open>read\<close>.\<close>

definition disk_full :: step where
  "disk_full = Faults Map.empty [''/qdata/nodekey'' \<mapsto> AfterOpen ENOSPC 1]"

definition torn_steps :: "step list" where
  "torn_steps = [Write [1, 2, 3], disk_full, Write [7, 8, 9]]"

definition dir_removed :: step where
  "dir_removed = Faults Map.empty [''/qdata/nodekey'' \<mapsto> AtOpen ENOENT]"

definition kept_steps :: "step list" where
  "kept_steps = [Write [1, 2, 3], dir_removed, Write [7, 8, 9], Read]"

definition custom_nodekey :: KeyVaultEncryptedFile where
  "custom_nodekey = \<lparr>filepath = ''/qdata/nodekey'',
              client = \<lparr>apiVersion = AWS_KMS_VERSION, region = JStr ''us-east-2'',
                        accessKeyId = JStr ''AKIDEXAMPLE'', secretAccessKey = JStr ''secret''\<rparr>,
              masterKeyId = JStr ''custom-key''\<rparr>"

definition nodekey :: KeyVaultEncryptedFile where
  "nodekey = \<lparr>filepath = ''/qdata/nodekey'',
              client = \<lparr>apiVersion = AWS_KMS_VERSION, region = JStr ''us-east-2'',
                        accessKeyId = JStr ''AKIDEXAMPLE'', secretAccessKey = JStr ''secret''\<rparr>,
              masterKeyId = JStr ''alias/kaleido''\<rparr>"

section \<open>Facts about one call and about sequences\<close>

lemma write_js_this: "fst (snd (snd (write_js K P (this, w)))) = this"
  by (simp add: write_js_def Let_def split: prod.splits sum.splits option.splits)

lemma read_this: "fst (snd (snd (read K (this, w)))) = this"
  by (simp add: read_def Let_def split: prod.splits sum.splits)

text \<open>What \<open>write\<close> does, in terms of the vault's answer and of \<open>fs.writeFile\<close>.\<close>

lemma write_js_unfold:
  "write_js K P (this, w) =
     (case encrypt K (client this) (masterKeyId this) P (vault w) of
        (Inl err, v') \<Rightarrow>
          (Rejected err,
           [KmsEncryptCall (masterKeyId this) P, KmsEncryptReply (Inl err),
            LogError [Val (JStr ''Failed to encrypt data with KMS.''), Err err]],
           this, w\<lparr>vault := v'\<rparr>)
      | (Inr blob, v') \<Rightarrow>
          (case fs_writeFile (fs w) (filepath this) blob of
             (Some e, f') \<Rightarrow>
               (Pending,
                [KmsEncryptCall (masterKeyId this) P, KmsEncryptReply (Inr blob),
                 FsWriteFile (filepath this) blob, UnhandledRejection e],
                this, w\<lparr>fs := f', vault := v'\<rparr>)
           | (None, f') \<Rightarrow>
               (Fulfilled (),
                [KmsEncryptCall (masterKeyId this) P, KmsEncryptReply (Inr blob),
                 FsWriteFile (filepath this) blob],
                this, w\<lparr>fs := f', vault := v'\<rparr>)))"
  by (simp add: write_js_def Let_def split: prod.splits sum.splits option.splits)

lemma exec_this: "exec K c (this, w) = (e, this', w') \<Longrightarrow> this' = this"
  by (auto simp: exec_def write_js_def read_def Let_def
           split: step.splits prod.splits sum.splits option.splits)

lemma exec_faults:
  "exec K c (this, w) = (e, this', w') \<Longrightarrow>
     wr_fault (fs w') = (case c of Faults rd wr \<Rightarrow> wr | Write d \<Rightarrow> wr_fault (fs w) | Read \<Rightarrow> wr_fault (fs w))"
  by (auto simp: exec_def write_js_def read_def fs_writeFile_def Let_def
           split: step.splits prod.splits sum.splits option.splits wr_failure.splits)

lemma exec_files:
  assumes "exec K c (this, w) = (e, this', w')"
      and "intact (filepath this) (wr_fault (fs w)) [c]"
  shows "files (fs w') =
           (if successful_write e then (files (fs w))(filepath this := blob_of (snd (snd e)))
            else files (fs w))"
    and "successful_write e \<Longrightarrow> blob_of (snd (snd e)) \<noteq> None"
  using assms
  by (auto simp: exec_def write_js_def read_def fs_writeFile_def Let_def tears_def
           split: step.splits prod.splits sum.splits option.splits wr_failure.splits)

lemma exec_others:
  assumes "exec K c (this, w) = (e, this', w')" and "q \<noteq> filepath this"
  shows "files (fs w') q = files (fs w) q"
  using assms
  by (auto simp: exec_def write_js_def read_def fs_writeFile_def Let_def
           split: step.splits prod.splits sum.splits option.splits wr_failure.splits)

lemma exec_writes:
  assumes "exec K c (this, w) = ((c', r, evs), st')" and "FsWriteFile p d \<in> set evs"
  shows "p = filepath this \<and> blob_of evs = Some d"
  using assms
  by (auto simp: exec_def write_js_def read_def Let_def
           split: step.splits prod.splits sum.splits option.splits)

lemma exec_keys:
  assumes "exec K c (this, w) = ((c', r, evs), st')" and "KmsEncryptCall k p \<in> set evs"
  shows "k = masterKeyId this"
  using assms
  by (auto simp: exec_def write_js_def read_def Let_def
           split: step.splits prod.splits sum.splits option.splits)

lemma intact_Cons:
  "intact p wr (c # cs) \<longleftrightarrow>
     intact p wr [c] \<and>
     intact p (case c of Faults rd wr' \<Rightarrow> wr' | Write d \<Rightarrow> wr | Read \<Rightarrow> wr) cs"
  by (cases c) simp_all

lemma run_this: "run K cs (this, w) = (J, this', w') \<Longrightarrow> this' = this"
proof (induction cs arbitrary: w J this' w')
  case Nil
  then show ?case by simp
next
  case (Cons c cs)
  obtain e t1 w1 where e: "exec K c (this, w) = (e, t1, w1)"
    by (metis prod_cases3)
  then have t1: "t1 = this" by (rule exec_this)
  obtain es t2 w2 where r: "run K cs (this, w1) = (es, t2, w2)"
    by (metis prod_cases3)
  from Cons.prems e t1 r have "this' = t2" by simp
  with Cons.IH [OF r] show ?case by simp
qed

lemma run_files:
  "run K cs (this, w) = (J, this', w') \<Longrightarrow> intact (filepath this) (wr_fault (fs w)) cs \<Longrightarrow>
     files (fs w') =
       (case last_blob J of
          Some b \<Rightarrow> (files (fs w))(filepath this \<mapsto> b)
        | None \<Rightarrow> files (fs w))"
proof (induction cs arbitrary: w J this' w')
  case Nil
  then show ?case by simp
next
  case (Cons c cs)
  obtain e t1 w1 where e: "exec K c (this, w) = (e, t1, w1)"
    by (metis prod_cases3)
  then have t1: "t1 = this" by (rule exec_this)
  obtain es t2 w2 where r: "run K cs (this, w1) = (es, t2, w2)"
    by (metis prod_cases3)
  from Cons.prems(1) e t1 r have J: "J = e # es" and w': "w' = w2" by simp_all
  from Cons.prems(2) have i1: "intact (filepath this) (wr_fault (fs w)) [c]"
    and i2: "intact (filepath this) (wr_fault (fs w1)) cs"
    using exec_faults [OF e] by (simp_all add: intact_Cons [of _ _ c cs])
  have step: "files (fs w1) =
           (if successful_write e then (files (fs w))(filepath this := blob_of (snd (snd e)))
            else files (fs w))"
    using exec_files(1) [OF e i1] .
  have some: "successful_write e \<Longrightarrow> blob_of (snd (snd e)) \<noteq> None"
    using exec_files(2) [OF e i1] .
  have "files (fs w2) =
          (case last_blob es of
             Some b \<Rightarrow> (files (fs w1))(filepath this \<mapsto> b)
           | None \<Rightarrow> files (fs w1))"
    using Cons.IH [OF r i2] .
  with step some show ?case
    unfolding J w' by (auto split: option.splits)
qed

lemma run_others:
  "run K cs (this, w) = (J, this', w') \<Longrightarrow> q \<noteq> filepath this \<Longrightarrow>
     files (fs w') q = files (fs w) q"
proof (induction cs arbitrary: w J this' w')
  case Nil
  then show ?case by simp
next
  case (Cons c cs)
  obtain e t1 w1 where e: "exec K c (this, w) = (e, t1, w1)"
    by (metis prod_cases3)
  then have t1: "t1 = this" by (rule exec_this)
  obtain es t2 w2 where r: "run K cs (this, w1) = (es, t2, w2)"
    by (metis prod_cases3)
  from Cons.prems(1) e t1 r have w': "w' = w2" by simp
  have "files (fs w1) q = files (fs w) q"
    using exec_others [OF e Cons.prems(2)] .
  with Cons.IH [OF r Cons.prems(2)] show ?case
    unfolding w' by simp
qed

lemma run_writes:
  "run K cs (this, w) = (J, st') \<Longrightarrow> (c', r, evs) \<in> set J \<Longrightarrow> FsWriteFile p d \<in> set evs \<Longrightarrow>
     p = filepath this \<and> blob_of evs = Some d"
proof (induction cs arbitrary: w J st')
  case Nil
  then show ?case by simp
next
  case (Cons c cs)
  obtain e t1 w1 where e: "exec K c (this, w) = (e, t1, w1)"
    by (metis prod_cases3)
  then have t1: "t1 = this" by (rule exec_this)
  obtain es st2 where r: "run K cs (this, w1) = (es, st2)"
    by (metis prod.exhaust)
  from Cons.prems(1) e t1 r have J: "J = e # es" by simp
  show ?case
  proof (cases "(c', r, evs) = e")
    case True
    with e Cons.prems(3) show ?thesis
      using exec_writes [of K c this w c' r evs "(t1, w1)" p d] by simp
  next
    case False
    with J Cons.prems(2) have "(c', r, evs) \<in> set es" by simp
    from Cons.IH [OF r this Cons.prems(3)] show ?thesis .
  qed
qed

lemma run_keys:
  "run K cs (this, w) = (J, st') \<Longrightarrow> (c', r, evs) \<in> set J \<Longrightarrow> KmsEncryptCall k p \<in> set evs \<Longrightarrow>
     k = masterKeyId this"
proof (induction cs arbitrary: w J st')
  case Nil
  then show ?case by simp
next
  case (Cons c cs)
  obtain e t1 w1 where e: "exec K c (this, w) = (e, t1, w1)"
    by (metis prod_cases3)
  then have t1: "t1 = this" by (rule exec_this)
  obtain es st2 where r: "run K cs (this, w1) = (es, st2)"
    by (metis prod.exhaust)
  from Cons.prems(1) e t1 r have J: "J = e # es" by simp
  show ?case
  proof (cases "(c', r, evs) = e")
    case True
    with e Cons.prems(3) show ?thesis
      using exec_keys [of K c this w c' r evs "(t1, w1)" k p] by simp
  next
    case False
    with J Cons.prems(2) have "(c', r, evs) \<in> set es" by simp
    from Cons.IH [OF r this Cons.prems(3)] show ?thesis .
  qed
qed

lemma eq_aws_iff: "eq_aws p \<longleftrightarrow> p = JStr ''aws''"
  by (cases p) simp_all

lemma falsy_iff: "\<not> truthy k \<longleftrightarrow> k \<in> {JUndefined, JNull, JStr [], JNum 0, JBool False, JNaN}"
  by (cases k) auto

lemma write_js_storage_failure:
  assumes "encrypt K (client this) (masterKeyId this) P (vault w) = (Inr blob, v')"
      and "fs_writeFile (fs w) (filepath this) blob = (Some e, f')"
  shows "write_js K P (this, w) =
           (Pending,
            [KmsEncryptCall (masterKeyId this) P, KmsEncryptReply (Inr blob),
             FsWriteFile (filepath this) blob, UnhandledRejection e],
            this, w\<lparr>fs := f', vault := v'\<rparr>)"
  using assms by (simp add: write_js_unfold)

section \<open>The claims\<close>

text \<open>
  C1. For every plaintext \<open>P\<close>: when the vault answers \<open>encrypt\<close> of \<open>P\<close> under the
  instance's key with a blob \<open>c\<close> and then answers \<open>decrypt\<close> of \<open>c\<close> with \<open>P\<close>, and the
  file system neither refuses to write nor to read the path, then \<open>write(P)\<close> is
  fulfilled, the file holds \<open>c\<close>, and the following \<open>read()\<close> is fulfilled with \<open>P\<close>.
\<close>

theorem write_then_read_roundtrip:
  assumes "encrypt K (client this) (masterKeyId this) P (vault w) = (Inr c, v1)"
      and "decrypt K (client this) c v1 = (Inr P, v2)"
      and "wr_fault (fs w) (filepath this) = None"
      and "rd_fault (fs w) (filepath this) = None"
  shows "\<exists>evs1 w1 evs2 w2.
           write_js K P (this, w) = (Fulfilled (), evs1, this, w1) \<and>
           files (fs w1) (filepath this) = Some c \<and>
           read K (this, w1) = (Fulfilled P, evs2, this, w2)"
  using assms
  by (simp add: write_js_def read_def fs_writeFile_def fs_readFile_def)

theorem write_then_read_roundtrip_witness:
  "encrypt shift_kms (client nodekey) (masterKeyId nodekey) [1, 2, 3] () = (Inr [2, 3, 4], ()) \<and>
   decrypt shift_kms (client nodekey) [2, 3, 4] () = (Inr [1, 2, 3], ()) \<and>
   wr_fault empty_fs (filepath nodekey) = None \<and>
   rd_fault empty_fs (filepath nodekey) = None \<and>
   (\<exists>evs1 w1 evs2 w2.
      write_js shift_kms [1, 2, 3] (nodekey, \<lparr>fs = empty_fs, vault = ()\<rparr>)
        = (Fulfilled (), evs1, nodekey, w1) \<and>
      files (fs w1) (filepath nodekey) = Some [2, 3, 4] \<and>
      read shift_kms (nodekey, w1) = (Fulfilled [1, 2, 3], evs2, nodekey, w2))"
proof -
  have e: "encrypt shift_kms (client nodekey) (masterKeyId nodekey) [1, 2, 3]
             (vault \<lparr>fs = empty_fs, vault = ()\<rparr>) = (Inr [2, 3, 4], ())"
    by (simp add: shift_kms_def)
  have d: "decrypt shift_kms (client nodekey) [2, 3, 4] () = (Inr [1, 2, 3], ())"
    by (simp add: shift_kms_def)
  have wf: "wr_fault (fs \<lparr>fs = empty_fs, vault = ()\<rparr>) (filepath nodekey) = None"
    by (simp add: empty_fs_def)
  have rf: "rd_fault (fs \<lparr>fs = empty_fs, vault = ()\<rparr>) (filepath nodekey) = None"
    by (simp add: empty_fs_def)
  from write_then_read_roundtrip [OF e d wf rf] e d wf rf show ?thesis
    by simp
qed

text \<open>
  C2. As stated the claim fails: when a \<open>write\<close> has succeeded, the disk then fills
  up, and a second \<open>write\<close> gets its blob from the vault but \<open>fs.writeFile\<close> gives up after
  one byte, the file exists and holds that one byte, not the blob of the most recent
  successful \<open>write\<close>.
\<close>

theorem file_torn_by_failed_write:
  "last_blob (fst (run shift_kms torn_steps (nodekey, \<lparr>fs = empty_fs, vault = ()\<rparr>)))
     = Some [2, 3, 4] \<and>
   files (fs (snd (snd (run shift_kms torn_steps (nodekey, \<lparr>fs = empty_fs, vault = ()\<rparr>)))))
     (filepath nodekey) = Some [8] \<and>
   files (fs (snd (snd (run shift_kms torn_steps (nodekey, \<lparr>fs = empty_fs, vault = ()\<rparr>)))))
     (filepath nodekey)
     \<noteq> last_blob (fst (run shift_kms torn_steps (nodekey, \<lparr>fs = empty_fs, vault = ()\<rparr>)))"
  by (simp add: torn_steps_def disk_full_def exec_def write_js_def read_def fs_writeFile_def
                shift_kms_def nodekey_def empty_fs_def)

text \<open>
  C2, amended. After any sequence of \<open>write\<close> and \<open>read\<close> calls and changes of the
  environment's failures: no path other than the instance's is touched; each
  \<open>fs.writeFile\<close> of the sequence goes to the instance's path with the blob that the vault
  returned in that call; and when no \<open>write\<close> of the sequence is made while writing the
  path would fail after the open, the file system is as at the start, except that once
  a \<open>write\<close> has succeeded the file holds exactly the blob of the most recent successful
  \<open>write\<close>. A further \<open>write\<close> is fulfilled exactly when the vault returns a blob and
  writing the path does not fail; it puts on disk that blob, or, failing after the
  open, the first bytes of that blob, or nothing, and never the plaintext argument; its
  journal shows the blob that the vault returned. A further \<open>read\<close> changes no file.
\<close>

theorem file_holds_last_blob:
  assumes "run K cs (this, w) = (J, this', w')"
  shows "(intact (filepath this) (wr_fault (fs w)) cs \<longrightarrow>
            files (fs w') =
              (case last_blob J of
                 Some b \<Rightarrow> (files (fs w))(filepath this \<mapsto> b)
               | None \<Rightarrow> files (fs w))) \<and>
         (\<forall>q. q \<noteq> filepath this \<longrightarrow> files (fs w') q = files (fs w) q) \<and>
         (\<forall>(c, r, evs) \<in> set J. \<forall>p d. FsWriteFile p d \<in> set evs \<longrightarrow>
            p = filepath this \<and> blob_of evs = Some d) \<and>
         files (fs (snd (snd (snd (write_js K P (this', w')))))) =
           (case encrypt K (client this) (masterKeyId this) P (vault w') of
              (Inl err, v') \<Rightarrow> files (fs w')
            | (Inr blob, v') \<Rightarrow>
                (case wr_fault (fs w') (filepath this) of
                   None \<Rightarrow> (files (fs w'))(filepath this \<mapsto> blob)
                 | Some (AtOpen e) \<Rightarrow> files (fs w')
                 | Some (AfterOpen e n) \<Rightarrow> (files (fs w'))(filepath this \<mapsto> take n blob))) \<and>
         blob_of (fst (snd (write_js K P (this', w')))) =
           (case fst (encrypt K (client this) (masterKeyId this) P (vault w')) of
              Inl err \<Rightarrow> None
            | Inr blob \<Rightarrow> Some blob) \<and>
         (fst (write_js K P (this', w')) = Fulfilled () \<longleftrightarrow>
            (\<exists>blob. fst (encrypt K (client this) (masterKeyId this) P (vault w')) = Inr blob) \<and>
            wr_fault (fs w') (filepath this) = None) \<and>
         files (fs (snd (snd (snd (read K (this', w')))))) = files (fs w')"
proof -
  have t: "this' = this"
    using assms by (rule run_this)
  have 1: "intact (filepath this) (wr_fault (fs w)) cs \<longrightarrow>
            files (fs w') =
              (case last_blob J of
                 Some b \<Rightarrow> (files (fs w))(filepath this \<mapsto> b)
               | None \<Rightarrow> files (fs w))"
    using run_files [OF assms] by blast
  have 2: "\<forall>q. q \<noteq> filepath this \<longrightarrow> files (fs w') q = files (fs w) q"
    using run_others [OF assms] by blast
  have 3: "\<forall>(c, r, evs) \<in> set J. \<forall>p d. FsWriteFile p d \<in> set evs \<longrightarrow>
           p = filepath this \<and> blob_of evs = Some d"
    using run_writes [OF assms] by blast
  have 4: "files (fs (snd (snd (snd (write_js K P (this', w')))))) =
           (case encrypt K (client this) (masterKeyId this) P (vault w') of
              (Inl err, v') \<Rightarrow> files (fs w')
            | (Inr blob, v') \<Rightarrow>
                (case wr_fault (fs w') (filepath this) of
                   None \<Rightarrow> (files (fs w'))(filepath this \<mapsto> blob)
                 | Some (AtOpen e) \<Rightarrow> files (fs w')
                 | Some (AfterOpen e n) \<Rightarrow> (files (fs w'))(filepath this \<mapsto> take n blob)))"
    unfolding t
    by (simp add: write_js_def fs_writeFile_def Let_def
             split: prod.splits sum.splits option.splits wr_failure.splits)
  have 5: "blob_of (fst (snd (write_js K P (this', w')))) =
           (case fst (encrypt K (client this) (masterKeyId this) P (vault w')) of
              Inl err \<Rightarrow> None
            | Inr blob \<Rightarrow> Some blob)"
    unfolding t
    by (simp add: write_js_def Let_def split: prod.splits sum.splits option.splits)
  have 6: "fst (write_js K P (this', w')) = Fulfilled () \<longleftrightarrow>
            (\<exists>blob. fst (encrypt K (client this) (masterKeyId this) P (vault w')) = Inr blob) \<and>
            wr_fault (fs w') (filepath this) = None"
    unfolding t
    by (auto simp: write_js_def fs_writeFile_def Let_def
             split: prod.splits sum.splits option.splits wr_failure.splits)
  have 7: "files (fs (snd (snd (snd (read K (this', w')))))) = files (fs w')"
    by (simp add: read_def Let_def split: prod.splits sum.splits)
  from 1 2 3 4 5 6 7 show ?thesis by blast
qed

theorem file_holds_last_blob_witness:
  "intact (filepath nodekey) (wr_fault empty_fs) kept_steps \<and>
   fst (run shift_kms kept_steps (nodekey, \<lparr>fs = empty_fs, vault = ()\<rparr>)) =
     [(Write [1, 2, 3], Wrote (Fulfilled ()),
       [KmsEncryptCall (JStr ''alias/kaleido'') [1, 2, 3], KmsEncryptReply (Inr [2, 3, 4]),
        FsWriteFile ''/qdata/nodekey'' [2, 3, 4]]),
      (dir_removed, Changed, []),
      (Write [7, 8, 9], Wrote Pending,
       [KmsEncryptCall (JStr ''alias/kaleido'') [7, 8, 9], KmsEncryptReply (Inr [8, 9, 10]),
        FsWriteFile ''/qdata/nodekey'' [8, 9, 10], UnhandledRejection (FsError ENOENT)]),
      (Read, Got (Fulfilled [1, 2, 3]),
       [FsReadFile ''/qdata/nodekey'', KmsDecryptCall [2, 3, 4],
        KmsDecryptReply (Inr [1, 2, 3])])] \<and>
   files (fs (snd (snd (run shift_kms kept_steps (nodekey, \<lparr>fs = empty_fs, vault = ()\<rparr>)))))
     = [''/qdata/nodekey'' \<mapsto> [2, 3, 4]]"
proof -
  let ?R = "run shift_kms kept_steps (nodekey, \<lparr>fs = empty_fs, vault = ()\<rparr>)"
  have I: "intact (filepath nodekey) (wr_fault (fs \<lparr>fs = empty_fs, vault = ()\<rparr>)) kept_steps"
    by (simp add: kept_steps_def dir_removed_def tears_def empty_fs_def nodekey_def)
  have J: "fst ?R =
     [(Write [1, 2, 3], Wrote (Fulfilled ()),
       [KmsEncryptCall (JStr ''alias/kaleido'') [1, 2, 3], KmsEncryptReply (Inr [2, 3, 4]),
        FsWriteFile ''/qdata/nodekey'' [2, 3, 4]]),
      (dir_removed, Changed, []),
      (Write [7, 8, 9], Wrote Pending,
       [KmsEncryptCall (JStr ''alias/kaleido'') [7, 8, 9], KmsEncryptReply (Inr [8, 9, 10]),
        FsWriteFile ''/qdata/nodekey'' [8, 9, 10], UnhandledRejection (FsError ENOENT)]),
      (Read, Got (Fulfilled [1, 2, 3]),
       [FsReadFile ''/qdata/nodekey'', KmsDecryptCall [2, 3, 4],
        KmsDecryptReply (Inr [1, 2, 3])])]"
    by (simp add: kept_steps_def dir_removed_def exec_def write_js_def read_def
                  fs_writeFile_def fs_readFile_def shift_kms_def nodekey_def empty_fs_def)
  have L: "last_blob (fst ?R) = Some [2, 3, 4]"
    unfolding J by (simp add: dir_removed_def)
  have P: "filepath nodekey = ''/qdata/nodekey''"
    by (simp add: nodekey_def)
  have E: "files (fs \<lparr>fs = empty_fs, vault = ()\<rparr>) = Map.empty"
    by (simp add: empty_fs_def)
  have R: "?R = (fst ?R, fst (snd ?R), snd (snd ?R))"
    by simp
  from file_holds_last_blob [OF R] I L P E
  have "files (fs (snd (snd ?R))) = [''/qdata/nodekey'' \<mapsto> [2, 3, 4]]"
    by simp
  with I J show ?thesis by simp
qed

text \<open>
  C3. For every provider value other than the string \<open>'aws'\<close>, \<open>getServiceClient\<close> and the
  constructor throw an error whose message ends with the offending identifier, after
  nothing but the constructor's log line: no call of the file system or of the vault.
  For the provider \<open>'aws'\<close> the constructor succeeds, and its client is bound to the
  configured region, api-key and api-secret, with API version \<open>2014-11-01\<close>.
\<close>

theorem provider_validation:
  "(opt_provider opts \<noteq> JStr ''aws'' \<longrightarrow>
      getServiceClient (opt_provider opts) opts =
        (Inl (Error (''Unsupported key vault provider: '' @ ToString (opt_provider opts))), []) \<and>
      constructor fp opts =
        (Inl (Error (''Unsupported key vault provider: '' @ ToString (opt_provider opts))),
         [LogInfo [Val (JStr ''filepath: ''), Val (JStr fp), Val (JStr '', CMK: ''),
                   Val (opt_key_id opts)]]) \<and>
      (\<forall>s. opt_provider opts = JStr s \<longrightarrow>
         fst (constructor fp opts) = Inl (Error (''Unsupported key vault provider: '' @ s)))) \<and>
   (opt_provider opts = JStr ''aws'' \<longrightarrow>
      (\<exists>this evs. constructor fp opts = (Inr this, evs) \<and>
         filepath this = fp \<and>
         fst (getServiceClient (opt_provider opts) opts) = Inr (client this) \<and>
         client this = \<lparr>apiVersion = ''2014-11-01'', region = opt_region opts,
                         accessKeyId = opt_api_key opts,
                         secretAccessKey = opt_api_secret opts\<rparr> \<and>
         filter is_io evs = []))"
  by (auto simp: constructor_def getServiceClient_def eq_aws_iff AWS_KMS_VERSION_def)

theorem provider_validation_witness:
  "opt_provider unknown_options \<noteq> JStr ''aws'' \<and>
   fst (constructor ''/qdata/nodekey'' unknown_options) =
     Inl (Error ''Unsupported key vault provider: unknown-x'') \<and>
   filter is_io (snd (constructor ''/qdata/nodekey'' unknown_options)) = [] \<and>
   opt_provider aws_options = JStr ''aws'' \<and>
   fst (constructor ''/qdata/nodekey'' aws_options) = Inr nodekey"
proof -
  have u: "opt_provider unknown_options \<noteq> JStr ''aws''"
    by (simp add: unknown_options_def aws_options_def)
  have a: "opt_provider aws_options = JStr ''aws''"
    by (simp add: aws_options_def)
  have k: "opt_provider unknown_options = JStr ''unknown-x''"
    by (simp add: unknown_options_def)
  from provider_validation [of unknown_options "''/qdata/nodekey''"] u k
  have 1: "fst (constructor ''/qdata/nodekey'' unknown_options) =
             Inl (Error ''Unsupported key vault provider: unknown-x'')"
    and 2: "filter is_io (snd (constructor ''/qdata/nodekey'' unknown_options)) = []"
    by simp_all
  from provider_validation [of aws_options "''/qdata/nodekey''"] a
  obtain this evs where c: "constructor ''/qdata/nodekey'' aws_options = (Inr this, evs)"
    and f: "filepath this = ''/qdata/nodekey''"
    and cl: "client this = \<lparr>apiVersion = ''2014-11-01'', region = opt_region aws_options,
                         accessKeyId = opt_api_key aws_options,
                         secretAccessKey = opt_api_secret aws_options\<rparr>"
    by blast
  have m: "masterKeyId this = JStr ''alias/kaleido''"
    using c by (auto simp: constructor_def getServiceClient_def aws_options_def split: if_splits)
  have "this = nodekey"
    using f cl m by (simp add: nodekey_def aws_options_def AWS_KMS_VERSION_def)
  with c have 3: "fst (constructor ''/qdata/nodekey'' aws_options) = Inr nodekey" by simp
  from u 1 2 a 3 show ?thesis by simp
qed

text \<open>
  C4. For every configuration with the recognized provider whose key-id is absent or a
  string: \<open>masterKeyId\<close> is the configured key-id when it is present and not the empty
  string, and \<open>'alias/kaleido'\<close> otherwise. After any sequence of calls the instance is
  the same, and a \<open>write\<close> then asks the vault to \<open>encrypt\<close> with exactly that value as
  \<open>KeyId\<close>: the outcome of the \<open>write\<close>, what it puts on disk and the vault's next state
  are those that the vault's answer for that \<open>KeyId\<close> gives. The \<open>KeyId\<close> noted in the
  journal for every \<open>encrypt\<close> call of the sequence is that value too.
\<close>

theorem key_id_resolution:
  assumes "opt_provider opts = JStr ''aws''"
      and "opt_key_id opts = (case kid of None \<Rightarrow> JUndefined | Some s \<Rightarrow> JStr s)"
  shows "\<exists>this evs w1. constructor fp opts = (Inr this, evs) \<and>
           masterKeyId this =
             (case kid of
                None \<Rightarrow> JStr ''alias/kaleido''
              | Some s \<Rightarrow> if s = [] then JStr ''alias/kaleido'' else JStr s) \<and>
           snd (run K cs (this, w)) = (this, w1) \<and>
           write_js K P (this, w1) =
             (case encrypt K (client this)
                     (case kid of
                        None \<Rightarrow> JStr ''alias/kaleido''
                      | Some s \<Rightarrow> if s = [] then JStr ''alias/kaleido'' else JStr s)
                     P (vault w1) of
                (Inl err, v') \<Rightarrow>
                  (Rejected err,
                   [KmsEncryptCall (masterKeyId this) P, KmsEncryptReply (Inl err),
                    LogError [Val (JStr ''Failed to encrypt data with KMS.''), Err err]],
                   this, w1\<lparr>vault := v'\<rparr>)
              | (Inr blob, v') \<Rightarrow>
                  (case fs_writeFile (fs w1) (filepath this) blob of
                     (Some e, f') \<Rightarrow>
                       (Pending,
                        [KmsEncryptCall (masterKeyId this) P, KmsEncryptReply (Inr blob),
                         FsWriteFile (filepath this) blob, UnhandledRejection e],
                        this, w1\<lparr>fs := f', vault := v'\<rparr>)
                   | (None, f') \<Rightarrow>
                       (Fulfilled (),
                        [KmsEncryptCall (masterKeyId this) P, KmsEncryptReply (Inr blob),
                         FsWriteFile (filepath this) blob],
                        this, w1\<lparr>fs := f', vault := v'\<rparr>))) \<and>
           (\<forall>(c, r, evs') \<in> set (fst (run K cs (this, w))). \<forall>k p.
              KmsEncryptCall k p \<in> set evs' \<longrightarrow> k = masterKeyId this)"
proof -
  obtain this evs where c: "constructor fp opts = (Inr this, evs)"
    and m: "masterKeyId this =
              (if truthy (opt_key_id opts) then opt_key_id opts else JStr ''alias/kaleido'')"
    using assms(1) by (simp add: constructor_def getServiceClient_def)
  have m': "masterKeyId this =
             (case kid of
                None \<Rightarrow> JStr ''alias/kaleido''
              | Some s \<Rightarrow> if s = [] then JStr ''alias/kaleido'' else JStr s)"
    using m assms(2) by (simp split: option.splits)
  obtain w1 where s: "snd (run K cs (this, w)) = (this, w1)"
    using run_this [of K cs this w "fst (run K cs (this, w))"
                      "fst (snd (run K cs (this, w)))" "snd (snd (run K cs (this, w)))"]
    by (metis prod.collapse)
  have r: "\<forall>(c, r, evs') \<in> set (fst (run K cs (this, w))). \<forall>k p.
              KmsEncryptCall k p \<in> set evs' \<longrightarrow> k = masterKeyId this"
    using run_keys [of K cs this w "fst (run K cs (this, w))" "snd (run K cs (this, w))"]
    by auto
  have u: "write_js K P (this, w1) =
             (case encrypt K (client this) (masterKeyId this) P (vault w1) of
                (Inl err, v') \<Rightarrow>
                  (Rejected err,
                   [KmsEncryptCall (masterKeyId this) P, KmsEncryptReply (Inl err),
                    LogError [Val (JStr ''Failed to encrypt data with KMS.''), Err err]],
                   this, w1\<lparr>vault := v'\<rparr>)
              | (Inr blob, v') \<Rightarrow>
                  (case fs_writeFile (fs w1) (filepath this) blob of
                     (Some e, f') \<Rightarrow>
                       (Pending,
                        [KmsEncryptCall (masterKeyId this) P, KmsEncryptReply (Inr blob),
                         FsWriteFile (filepath this) blob, UnhandledRejection e],
                        this, w1\<lparr>fs := f', vault := v'\<rparr>)
                   | (None, f') \<Rightarrow>
                       (Fulfilled (),
                        [KmsEncryptCall (masterKeyId this) P, KmsEncryptReply (Inr blob),
                         FsWriteFile (filepath this) blob],
                        this, w1\<lparr>fs := f', vault := v'\<rparr>)))"
    by (simp add: write_js_def Let_def split: prod.splits sum.splits option.splits)
  from c m' s u r show ?thesis
    unfolding m' [symmetric] by blast
qed

theorem key_id_resolution_witness:
  "opt_provider custom_options = JStr ''aws'' \<and>
   opt_key_id custom_options = JStr ''custom-key'' \<and>
   fst (constructor ''/qdata/nodekey'' custom_options) = Inr custom_nodekey \<and>
   fst (write_js keyed_kms [1, 2, 3]
          (snd (run keyed_kms [Write [9], Read] (custom_nodekey, \<lparr>fs = empty_fs, vault = ()\<rparr>))))
     = Fulfilled () \<and>
   fst (snd (write_js keyed_kms [1, 2, 3] (custom_nodekey, \<lparr>fs = empty_fs, vault = ()\<rparr>))) =
     [KmsEncryptCall (JStr ''custom-key'') [1, 2, 3], KmsEncryptReply (Inr [2, 3, 4]),
      FsWriteFile ''/qdata/nodekey'' [2, 3, 4]] \<and>
   opt_provider aws_options = JStr ''aws'' \<and>
   opt_key_id aws_options = JUndefined \<and>
   fst (constructor ''/qdata/nodekey'' aws_options) = Inr nodekey \<and>
   fst (write_js keyed_kms [1, 2, 3]
          (snd (run keyed_kms [Write [9], Read] (nodekey, \<lparr>fs = empty_fs, vault = ()\<rparr>))))
     = Rejected (KmsError ''NotFoundException'')"
proof -
  let ?w = "\<lparr>fs = empty_fs, vault = ()\<rparr>"
  let ?cs = "[Write [9], Read]"
  have p: "opt_provider custom_options = JStr ''aws''"
    by (simp add: custom_options_def aws_options_def)
  have k: "opt_key_id custom_options =
             (case Some ''custom-key'' of None \<Rightarrow> JUndefined | Some s \<Rightarrow> JStr s)"
    by (simp add: custom_options_def)
  have c: "fst (constructor ''/qdata/nodekey'' custom_options) = Inr custom_nodekey"
    by (simp add: constructor_def getServiceClient_def custom_options_def aws_options_def
                  custom_nodekey_def)
  have p0: "opt_provider aws_options = JStr ''aws''"
    by (simp add: aws_options_def)
  have k0: "opt_key_id aws_options = (case None of None \<Rightarrow> JUndefined | Some s \<Rightarrow> JStr s)"
    by (simp add: aws_options_def)
  have c0: "fst (constructor ''/qdata/nodekey'' aws_options) = Inr nodekey"
    by (simp add: constructor_def getServiceClient_def aws_options_def nodekey_def)
  have f: "wr_fault (fs (snd (snd (run keyed_kms ?cs (custom_nodekey, ?w)))))
             (filepath custom_nodekey) = None"
    by (simp add: exec_def write_js_def read_def fs_writeFile_def fs_readFile_def
                  keyed_kms_def custom_nodekey_def empty_fs_def)
  from key_id_resolution [OF p k, of "''/qdata/nodekey''" keyed_kms ?cs ?w "[1, 2, 3]"] c
  obtain w1 where s1: "snd (run keyed_kms ?cs (custom_nodekey, ?w)) = (custom_nodekey, w1)"
    and u1: "write_js keyed_kms [1, 2, 3] (custom_nodekey, w1) =
             (case encrypt keyed_kms (client custom_nodekey) (JStr ''custom-key'')
                     [1, 2, 3] (vault w1) of
                (Inl err, v') \<Rightarrow>
                  (Rejected err,
                   [KmsEncryptCall (masterKeyId custom_nodekey) [1, 2, 3],
                    KmsEncryptReply (Inl err),
                    LogError [Val (JStr ''Failed to encrypt data with KMS.''), Err err]],
                   custom_nodekey, w1\<lparr>vault := v'\<rparr>)
              | (Inr blob, v') \<Rightarrow>
                  (case fs_writeFile (fs w1) (filepath custom_nodekey) blob of
                     (Some e, f') \<Rightarrow>
                       (Pending,
                        [KmsEncryptCall (masterKeyId custom_nodekey) [1, 2, 3],
                         KmsEncryptReply (Inr blob),
                         FsWriteFile (filepath custom_nodekey) blob, UnhandledRejection e],
                        custom_nodekey, w1\<lparr>fs := f', vault := v'\<rparr>)
                   | (None, f') \<Rightarrow>
                       (Fulfilled (),
                        [KmsEncryptCall (masterKeyId custom_nodekey) [1, 2, 3],
                         KmsEncryptReply (Inr blob),
                         FsWriteFile (filepath custom_nodekey) blob],
                        custom_nodekey, w1\<lparr>fs := f', vault := v'\<rparr>)))"
    by auto
  from s1 f have f1: "wr_fault (fs w1) (filepath custom_nodekey) = None"
    by simp
  have 1: "fst (write_js keyed_kms [1, 2, 3] (snd (run keyed_kms ?cs (custom_nodekey, ?w))))
             = Fulfilled ()"
    unfolding s1 u1 using f1 by (simp add: keyed_kms_def fs_writeFile_def)
  from key_id_resolution [OF p0 k0, of "''/qdata/nodekey''" keyed_kms ?cs ?w "[1, 2, 3]"] c0
  obtain w2 where s2: "snd (run keyed_kms ?cs (nodekey, ?w)) = (nodekey, w2)"
    and u2: "write_js keyed_kms [1, 2, 3] (nodekey, w2) =
             (case encrypt keyed_kms (client nodekey) (JStr ''alias/kaleido'')
                     [1, 2, 3] (vault w2) of
                (Inl err, v') \<Rightarrow>
                  (Rejected err,
                   [KmsEncryptCall (masterKeyId nodekey) [1, 2, 3],
                    KmsEncryptReply (Inl err),
                    LogError [Val (JStr ''Failed to encrypt data with KMS.''), Err err]],
                   nodekey, w2\<lparr>vault := v'\<rparr>)
              | (Inr blob, v') \<Rightarrow>
                  (case fs_writeFile (fs w2) (filepath nodekey) blob of
                     (Some e, f') \<Rightarrow>
                       (Pending,
                        [KmsEncryptCall (masterKeyId nodekey) [1, 2, 3],
                         KmsEncryptReply (Inr blob),
                         FsWriteFile (filepath nodekey) blob, UnhandledRejection e],
                        nodekey, w2\<lparr>fs := f', vault := v'\<rparr>)
                   | (None, f') \<Rightarrow>
                       (Fulfilled (),
                        [KmsEncryptCall (masterKeyId nodekey) [1, 2, 3],
                         KmsEncryptReply (Inr blob),
                         FsWriteFile (filepath nodekey) blob],
                        nodekey, w2\<lparr>fs := f', vault := v'\<rparr>)))"
    by auto
  have 2: "fst (write_js keyed_kms [1, 2, 3] (snd (run keyed_kms ?cs (nodekey, ?w))))
             = Rejected (KmsError ''NotFoundException'')"
    unfolding s2 u2 by (simp add: keyed_kms_def)
  have 3: "fst (snd (write_js keyed_kms [1, 2, 3] (custom_nodekey, ?w))) =
     [KmsEncryptCall (JStr ''custom-key'') [1, 2, 3], KmsEncryptReply (Inr [2, 3, 4]),
      FsWriteFile ''/qdata/nodekey'' [2, 3, 4]]"
    by (simp add: write_js_def fs_writeFile_def keyed_kms_def custom_nodekey_def empty_fs_def)
  from p k c 1 3 p0 k0 c0 2 show ?thesis by simp
qed

text \<open>
  C5. When the instance's path has no file, or the file cannot be read, \<open>read()\<close> is
  rejected with the file system's error (\<open>ENOENT\<close> for a missing file) after the single
  call of \<open>fs.readFile\<close>: the vault's \<open>decrypt\<close> is not invoked and nothing changes.
\<close>

theorem read_without_file:
  assumes "files (fs w) (filepath this) = None \<or> rd_fault (fs w) (filepath this) \<noteq> None"
  shows "\<exists>en. read K (this, w) = (Rejected (FsError en), [FsReadFile (filepath this)], this, w) \<and>
              (rd_fault (fs w) (filepath this) = None \<longrightarrow> en = ENOENT)"
  using assms by (auto simp: read_def fs_readFile_def split: option.splits)

theorem read_without_file_witness:
  "files (fs \<lparr>fs = empty_fs, vault = ()\<rparr>) (filepath nodekey) = None \<and>
   read shift_kms (nodekey, \<lparr>fs = empty_fs, vault = ()\<rparr>) =
     (Rejected (FsError ENOENT), [FsReadFile ''/qdata/nodekey''], nodekey,
      \<lparr>fs = empty_fs, vault = ()\<rparr>)"
proof -
  have f: "files (fs \<lparr>fs = empty_fs, vault = ()\<rparr>) (filepath nodekey) = None"
    by (simp add: empty_fs_def)
  have r: "rd_fault (fs \<lparr>fs = empty_fs, vault = ()\<rparr>) (filepath nodekey) = None"
    by (simp add: empty_fs_def)
  have P: "filepath nodekey = ''/qdata/nodekey''"
    by (simp add: nodekey_def)
  from read_without_file [of "\<lparr>fs = empty_fs, vault = ()\<rparr>" nodekey shift_kms] f r P
  have "read shift_kms (nodekey, \<lparr>fs = empty_fs, vault = ()\<rparr>) =
     (Rejected (FsError ENOENT), [FsReadFile ''/qdata/nodekey''], nodekey,
      \<lparr>fs = empty_fs, vault = ()\<rparr>)"
    by auto
  with f show ?thesis by blast
qed

text \<open>
  C6. For every plaintext: when the vault's \<open>encrypt\<close> hands an error to the callback,
  \<open>write\<close> is rejected with that very error, after exactly one \<open>encrypt\<close> call and the
  log line, without any call of \<open>fs.writeFile\<close>; the file system is as it was before.
\<close>

theorem encrypt_failure_isolated:
  assumes "encrypt K (client this) (masterKeyId this) P (vault w) = (Inl err, v')"
  shows "write_js K P (this, w) =
           (Rejected err,
            [KmsEncryptCall (masterKeyId this) P, KmsEncryptReply (Inl err),
             LogError [Val (JStr ''Failed to encrypt data with KMS.''), Err err]],
            this, w\<lparr>vault := v'\<rparr>) \<and>
         fs (snd (snd (snd (write_js K P (this, w))))) = fs w"
  using assms by (simp add: write_js_def)

theorem encrypt_failure_isolated_witness:
  "encrypt down_kms (client nodekey) (masterKeyId nodekey) [1, 2, 3] () =
     (Inl (KmsError ''AccessDeniedException''), ()) \<and>
   fst (write_js down_kms [1, 2, 3] (nodekey, \<lparr>fs = sentinel_fs, vault = ()\<rparr>)) =
     Rejected (KmsError ''AccessDeniedException'') \<and>
   files (fs (snd (snd (snd (write_js down_kms [1, 2, 3] (nodekey, \<lparr>fs = sentinel_fs, vault = ()\<rparr>))))))
     ''/qdata/nodekey'' = Some [83, 69, 78]"
proof -
  have e: "encrypt down_kms (client nodekey) (masterKeyId nodekey) [1, 2, 3]
             (vault \<lparr>fs = sentinel_fs, vault = ()\<rparr>) = (Inl (KmsError ''AccessDeniedException''), ())"
    by (simp add: down_kms_def)
  have s: "files sentinel_fs ''/qdata/nodekey'' = Some [83, 69, 78]"
    by (simp add: sentinel_fs_def)
  from encrypt_failure_isolated [OF e] e s show ?thesis
    by simp
qed

text \<open>
  C7. With a vault whose \<open>encrypt\<close> succeeds and a path whose directory is missing, so
  that \<open>fs.writeFile\<close> fails with \<open>ENOENT\<close>, the promise returned by \<open>write\<close> is neither
  fulfilled nor rejected: it stays pending, and the file system's error ends as an
  unhandled rejection of the callback's own promise.
\<close>

theorem write_storage_failure_never_settles:
  "write_js shift_kms [1, 2, 3] (nodekey, \<lparr>fs = nodir_fs, vault = ()\<rparr>) =
     (Pending,
      [KmsEncryptCall (JStr ''alias/kaleido'') [1, 2, 3], KmsEncryptReply (Inr [2, 3, 4]),
       FsWriteFile ''/qdata/nodekey'' [2, 3, 4], UnhandledRejection (FsError ENOENT)],
      nodekey, \<lparr>fs = nodir_fs, vault = ()\<rparr>)"
  by (simp add: write_js_def fs_writeFile_def shift_kms_def nodekey_def nodir_fs_def empty_fs_def)

text \<open>
  C8. For every existing, readable file at the instance's path, \<open>read()\<close> passes exactly
  the file's bytes to the vault's \<open>decrypt\<close>; it is fulfilled with the plaintext just as
  the vault returned it, or, when the vault hands an error to the callback, rejected
  with that very error after the log line.
\<close>

theorem read_decrypts_file_bytes:
  assumes "files (fs w) (filepath this) = Some b"
      and "rd_fault (fs w) (filepath this) = None"
      and "decrypt K (client this) b (vault w) = (reply, v')"
  shows "read K (this, w) =
           (case reply of
              Inl err \<Rightarrow>
                (Rejected err,
                 [FsReadFile (filepath this), KmsDecryptCall b, KmsDecryptReply (Inl err),
                  LogError [Val (JStr ''Failed to decrypt data with KMS.''), Err err]],
                 this, w\<lparr>vault := v'\<rparr>)
            | Inr plaintext \<Rightarrow>
                (Fulfilled plaintext,
                 [FsReadFile (filepath this), KmsDecryptCall b, KmsDecryptReply (Inr plaintext)],
                 this, w\<lparr>vault := v'\<rparr>))"
  using assms by (simp add: read_def fs_readFile_def split: sum.splits)

theorem read_decrypts_file_bytes_witness:
  "files (fs \<lparr>fs = sentinel_fs, vault = ()\<rparr>) (filepath nodekey) = Some [83, 69, 78] \<and>
   rd_fault (fs \<lparr>fs = sentinel_fs, vault = ()\<rparr>) (filepath nodekey) = None \<and>
   decrypt shift_kms (client nodekey) [83, 69, 78] () = (Inr [82, 68, 77], ()) \<and>
   fst (read shift_kms (nodekey, \<lparr>fs = sentinel_fs, vault = ()\<rparr>)) = Fulfilled [82, 68, 77] \<and>
   decrypt down_kms (client nodekey) [83, 69, 78] () =
     (Inl (KmsError ''InvalidCiphertextException''), ()) \<and>
   fst (read down_kms (nodekey, \<lparr>fs = sentinel_fs, vault = ()\<rparr>)) =
     Rejected (KmsError ''InvalidCiphertextException'')"
proof -
  have f: "files (fs \<lparr>fs = sentinel_fs, vault = ()\<rparr>) (filepath nodekey) = Some [83, 69, 78]"
    by (simp add: sentinel_fs_def nodekey_def)
  have r: "rd_fault (fs \<lparr>fs = sentinel_fs, vault = ()\<rparr>) (filepath nodekey) = None"
    by (simp add: sentinel_fs_def empty_fs_def)
  have d: "decrypt shift_kms (client nodekey) [83, 69, 78] (vault \<lparr>fs = sentinel_fs, vault = ()\<rparr>)
             = (Inr [82, 68, 77], ())"
    by (simp add: shift_kms_def)
  have d': "decrypt down_kms (client nodekey) [83, 69, 78] (vault \<lparr>fs = sentinel_fs, vault = ()\<rparr>)
             = (Inl (KmsError ''InvalidCiphertextException''), ())"
    by (simp add: down_kms_def)
  from read_decrypts_file_bytes [OF f r d] read_decrypts_file_bytes [OF f r d'] f r d d'
  show ?thesis by simp
qed

text \<open>
  C9. After \<open>write\<close>, after \<open>read\<close>, and after any sequence of both, the instance's
  \<open>filepath\<close>, \<open>client\<close> and \<open>masterKeyId\<close> are those it had before.
\<close>

theorem bindings_unchanged:
  "fst (snd (snd (write_js K P (this, w)))) = this \<and>
   fst (snd (snd (read K (this, w)))) = this \<and>
   fst (snd (run K cs (this, w))) = this"
proof -
  have "fst (snd (run K cs (this, w))) = this"
    using run_this [of K cs this w "fst (run K cs (this, w))"
                      "fst (snd (run K cs (this, w)))" "snd (snd (run K cs (this, w)))"]
    by simp
  then show ?thesis
    using write_js_this [of K P this w] read_this [of K this w] by simp
qed

text \<open>
  C10. For every configuration with the recognized provider: when the key-id is one of
  the falsy values \<open>undefined\<close> (also an absent field), \<open>null\<close>, the empty string, \<open>0\<close>,
  \<open>false\<close> or \<open>NaN\<close>, \<open>masterKeyId\<close> is the string \<open>'alias/kaleido'\<close>; for every other
  key-id value, \<open>masterKeyId\<close> is that value itself.
\<close>

theorem falsy_key_id_default:
  assumes "opt_provider opts = JStr ''aws''"
  shows "\<exists>this evs. constructor fp opts = (Inr this, evs) \<and>
           masterKeyId this =
             (if opt_key_id opts \<in> {JUndefined, JNull, JStr [], JNum 0, JBool False, JNaN}
              then JStr ''alias/kaleido'' else opt_key_id opts)"
  using assms falsy_iff [of "opt_key_id opts"]
  by (simp add: constructor_def getServiceClient_def)

theorem falsy_key_id_default_witness:
  "opt_provider zero_options = JStr ''aws'' \<and> opt_key_id zero_options = JNum 0 \<and>
   (\<exists>this evs. constructor ''/qdata/nodekey'' zero_options = (Inr this, evs) \<and>
      masterKeyId this = JStr ''alias/kaleido'') \<and>
   opt_provider custom_options = JStr ''aws'' \<and> opt_key_id custom_options = JStr ''custom-key'' \<and>
   (\<exists>this evs. constructor ''/qdata/nodekey'' custom_options = (Inr this, evs) \<and>
      masterKeyId this = JStr ''custom-key'')"
proof -
  have p: "opt_provider zero_options = JStr ''aws''"
    by (simp add: zero_options_def aws_options_def)
  have k: "opt_key_id zero_options = JNum 0"
    by (simp add: zero_options_def)
  have p1: "opt_provider custom_options = JStr ''aws''"
    by (simp add: custom_options_def aws_options_def)
  have k1: "opt_key_id custom_options = JStr ''custom-key''"
    by (simp add: custom_options_def)
  from falsy_key_id_default [OF p, of "''/qdata/nodekey''"] k
  have 1: "\<exists>this evs. constructor ''/qdata/nodekey'' zero_options = (Inr this, evs) \<and>
      masterKeyId this = JStr ''alias/kaleido''"
    by simp
  from falsy_key_id_default [OF p1, of "''/qdata/nodekey''"] k1
  have 2: "\<exists>this evs. constructor ''/qdata/nodekey'' custom_options = (Inr this, evs) \<and>
      masterKeyId this = JStr ''custom-key''"
    by simp
  from p k 1 p1 k1 2 show ?thesis by simp
qed

end
